theory Spec2Isabelle
  imports Main "HOL-Library.Sublist" "HOL-Library.Word"
begin

section \<open>Python strings\<close>

text \<open>
  A Python \<open>str\<close> is modelled as a \<open>string\<close>: a list of characters, each a code point
  below 256. On that range the tables below are those of CPython: \<open>str.isspace\<close> and the
  regular expression class \<open>\s\<close> accept the same twelve code points, and \<open>str.lower\<close>
  moves \<open>A\<close>..\<open>Z\<close> and the Latin-1 capitals (192..222 except 215) up by 32.
\<close>

definition isspace :: "char \<Rightarrow> bool" where
  "isspace c = (of_char c \<in> {9, 10, 11, 12, 13, 28, 29, 30, 31, 32, 133, 160 :: nat})"

definition lower_char :: "char \<Rightarrow> char" where
  "lower_char c =
     (let n = (of_char c :: nat)
      in if (65 \<le> n \<and> n \<le> 90) \<or> (192 \<le> n \<and> n \<le> 222 \<and> n \<noteq> 215)
         then char_of (n + 32) else c)"

definition lower :: "string \<Rightarrow> string" where
  "lower s = map lower_char s"

text \<open>\<open>needle in text\<close> on two strings: substring search, scanning \<open>text\<close> from the left.\<close>

fun str_in :: "string \<Rightarrow> string \<Rightarrow> bool" where
  "str_in w [] = (w = [])"
| "str_in w (c # cs) = (prefix w (c # cs) \<or> str_in w cs)"

text \<open>\<open>any(word in text for word in words)\<close>.\<close>

definition any_in :: "string list \<Rightarrow> string \<Rightarrow> bool" where
  "any_in ws text = list_ex (\<lambda>w. str_in w text) ws"

text \<open>\<open>s.strip()\<close>: leading and trailing whitespace removed.\<close>

definition strip :: "string \<Rightarrow> string" where
  "strip s = rev (dropWhile isspace (rev (dropWhile isspace s)))"

text \<open>\<open>re.sub(r'\s+', ' ', s)\<close>: every maximal run of whitespace becomes one space.\<close>

function sub_ws :: "string \<Rightarrow> string" where
  "sub_ws [] = []"
| "sub_ws (c # cs) =
     (if isspace c then CHR '' '' # sub_ws (dropWhile isspace cs) else c # sub_ws cs)"
  by pat_completeness auto
termination
  by (relation "measure length") (auto simp: length_dropWhile_le less_Suc_eq_le)

text \<open>
  \<open>s.replace(old, '')\<close>: the occurrences of \<open>old\<close> are removed from left to right, without
  overlap; an empty \<open>old\<close> leaves \<open>s\<close> as it is.
\<close>

function remove_all :: "string \<Rightarrow> string \<Rightarrow> string" where
  "remove_all old [] = []"
| "remove_all old (c # cs) =
     (if old = [] then c # cs
      else if prefix old (c # cs) then remove_all old (drop (length old) (c # cs))
      else c # remove_all old cs)"
  by pat_completeness auto
termination
  by (relation "measure (\<lambda>(old, s). length s)") (auto simp: neq_Nil_conv)

text \<open>\<open>re.split(r'[.!?]', s)[0]\<close>: the text before the first of \<open>.\<close>, \<open>!\<close>, \<open>?\<close>.\<close>

definition sentence_end :: "char \<Rightarrow> bool" where
  "sentence_end c = (c = CHR ''.'' \<or> c = CHR ''!'' \<or> c = CHR ''?'')"

definition first_segment :: "string \<Rightarrow> string" where
  "first_segment s = takeWhile (\<lambda>c. \<not> sentence_end c) s"

section \<open>The content of a message and the rule-based reply\<close>

text \<open>The dictionary \<open>get_email_content\<close> returns, with its five keys.\<close>

record email_content =
  subject :: string
  from_email :: string
  body :: string
  thread_id :: string
  message_id :: string

text \<open>
  \<open>re.sub(r'\s+', ' ', body).strip()[:500]\<close>, the normalisation line of
  \<open>get_email_content\<close>.
\<close>

definition normalize_body :: "string \<Rightarrow> string" where
  "normalize_body b = take 500 (strip (sub_ws b))"

text \<open>The five keyword lists of \<open>generate_simple_reply\<close>, in the order of its branches.\<close>

datatype category = Greeting | Question | Urgency | Gratitude | Scheduling

fun category_keywords :: "category \<Rightarrow> string list" where
  "category_keywords Greeting = [''hello'', ''hi'', ''hey'', ''greeting'']"
| "category_keywords Question = [''question'', ''ask'', ''help'', ''support'']"
| "category_keywords Urgency = [''urgent'', ''asap'', ''important'', ''emergency'']"
| "category_keywords Gratitude = [''thank'', ''thanks'', ''appreciate'', ''grateful'']"
| "category_keywords Scheduling = [''meeting'', ''schedule'', ''appointment'', ''calendar'']"

fun canned_reply :: "category \<Rightarrow> string" where
  "canned_reply Greeting = ''Hello! Thank you for your message. I'll get back to you soon.''"
| "canned_reply Question = ''Thanks for your question. I'll look into this and respond properly.''"
| "canned_reply Urgency = ''I've received your urgent message and will prioritize it.''"
| "canned_reply Gratitude = ''You're welcome! I'm glad I could help.''"
| "canned_reply Scheduling = ''I'll check my schedule and get back to you about the meeting.''"

definition default_reply :: string where
  "default_reply = ''Thank you for your email. I've received it and will respond soon.''"

text \<open>The first line of \<open>generate_simple_reply\<close>: subject, one space, body, lower-cased.\<close>

definition reply_text_of :: "email_content \<Rightarrow> string" where
  "reply_text_of ec = lower (subject ec @ '' '' @ body ec)"

text \<open>The chain of \<open>if\<close> and \<open>elif\<close> on that text.\<close>

definition select_reply :: "string \<Rightarrow> string" where
  "select_reply text =
     (if any_in (category_keywords Greeting) text then canned_reply Greeting
      else if any_in (category_keywords Question) text then canned_reply Question
      else if any_in (category_keywords Urgency) text then canned_reply Urgency
      else if any_in (category_keywords Gratitude) text then canned_reply Gratitude
      else if any_in (category_keywords Scheduling) text then canned_reply Scheduling
      else default_reply)"

definition generate_simple_reply :: "email_content \<Rightarrow> string" where
  "generate_simple_reply ec = select_reply (reply_text_of ec)"

text \<open>
  The text as the specification words it, "the concatenation of subject and body", with
  nothing between the two; it is compared with \<open>reply_text_of\<close> below.
\<close>

definition spec_text_of :: "email_content \<Rightarrow> string" where
  "spec_text_of ec = lower (subject ec @ body ec)"


definition priority_order :: "category list" where
  "priority_order = [Greeting, Question, Urgency, Gratitude, Scheduling]"

section \<open>Exceptions\<close>

text \<open>
  The exception classes the code tells apart: \<open>get_unreplied_emails\<close> catches
  \<open>HttpError\<close> only, every other handler catches \<open>Exception\<close>. \<open>OtherException\<close> stands
  for any further subclass of \<open>Exception\<close> a collaborator may raise (a socket timeout, a
  refused connection, a runtime fault of the model). \<open>KeyboardInterrupt\<close> is not an
  \<open>Exception\<close> and is left out: it is the external stop signal.
\<close>

datatype exn = HttpError | KeyError | IndexError | ValueError | BinasciiError | OtherException

text \<open>\<open>d[key]\<close> on a dictionary whose key may be missing.\<close>

definition subscript :: "'a option \<Rightarrow> exn + 'a" where
  "subscript v = (case v of None \<Rightarrow> Inl KeyError | Some x \<Rightarrow> Inr x)"

definition bind_exn :: "exn + 'a \<Rightarrow> ('a \<Rightarrow> exn + 'b) \<Rightarrow> exn + 'b" where
  "bind_exn m f = (case m of Inl e \<Rightarrow> Inl e | Inr x \<Rightarrow> f x)"

section \<open>Decoding the body\<close>

text \<open>
  \<open>base64.urlsafe_b64decode\<close> on a \<open>str\<close>: a character outside ASCII raises
  \<open>ValueError\<close>; \<open>-\<close> and \<open>_\<close> are translated to \<open>+\<close> and \<open>/\<close>; then
  \<open>binascii.a2b_base64\<close> runs in its lenient mode: characters outside the alphabet are
  skipped, a completed run of padding ends the input, and input that ends one character
  into a group of four raises \<open>binascii.Error\<close>.
\<close>

type_synonym byte = "8 word"

definition urlsafe_translate :: "char \<Rightarrow> char" where
  "urlsafe_translate c =
     (if c = CHR ''-'' then CHR ''+'' else if c = CHR ''_'' then CHR ''/'' else c)"

definition b64_value :: "char \<Rightarrow> byte option" where
  "b64_value c =
     (let n = (of_char c :: nat)
      in if 65 \<le> n \<and> n \<le> 90 then Some (of_nat (n - 65))
         else if 97 \<le> n \<and> n \<le> 122 then Some (of_nat (n - 71))
         else if 48 \<le> n \<and> n \<le> 57 then Some (of_nat (n + 4))
         else if c = CHR ''+'' then Some 62
         else if c = CHR ''/'' then Some 63
         else None)"

fun a2b_base64 :: "string \<Rightarrow> nat \<Rightarrow> byte \<Rightarrow> nat \<Rightarrow> byte list \<Rightarrow> exn + byte list" where
  "a2b_base64 [] quad_pos leftchar pads out =
     (if quad_pos \<noteq> 0 then Inl BinasciiError else Inr out)"
| "a2b_base64 (c # cs) quad_pos leftchar pads out =
     (if c = CHR ''='' then
        (if 2 \<le> quad_pos then
           (if 4 \<le> quad_pos + (pads + 1) then Inr out
            else a2b_base64 cs quad_pos leftchar (pads + 1) out)
         else a2b_base64 cs quad_pos leftchar pads out)
      else
        (case b64_value c of
           None \<Rightarrow> a2b_base64 cs quad_pos leftchar pads out
         | Some v \<Rightarrow>
             (if quad_pos = 0 then a2b_base64 cs 1 v 0 out
              else if quad_pos = 1 then
                a2b_base64 cs 2 (and v 15) 0 (out @ [or (push_bit 2 leftchar) (drop_bit 4 v)])
              else if quad_pos = 2 then
                a2b_base64 cs 3 (and v 3) 0 (out @ [or (push_bit 4 leftchar) (drop_bit 2 v)])
              else a2b_base64 cs 0 0 0 (out @ [or (push_bit 6 leftchar) v]))))"

definition urlsafe_b64decode :: "string \<Rightarrow> exn + byte list" where
  "urlsafe_b64decode s =
     (if list_ex (\<lambda>c. 128 \<le> (of_char c :: nat)) s then Inl ValueError
      else a2b_base64 (map urlsafe_translate s) 0 0 0 [])"

text \<open>
  \<open>bytes.decode('utf-8', errors='ignore')\<close> never raises: bytes that do not decode are
  dropped. Its table is the interpreter's, not the repository's, so the decoder is a
  parameter \<open>utf8\<close> of the extraction; \<open>ascii_utf8\<close> is the decoder on ASCII bytes, where
  every byte is its own code point, and drops the others.
\<close>

type_synonym utf8_decoder = "byte list \<Rightarrow> string"

definition ascii_utf8 :: utf8_decoder where
  "ascii_utf8 bs = map (\<lambda>b. char_of (unat b)) (filter (\<lambda>b. b < 128) bs)"

text \<open>\<open>base64.urlsafe_b64decode(body_data + '===').decode('utf-8', errors='ignore')\<close>.\<close>

definition decode_body :: "utf8_decoder \<Rightarrow> string \<Rightarrow> exn + string" where
  "decode_body utf8 body_data =
     (case urlsafe_b64decode (body_data @ ''==='') of
        Inl e \<Rightarrow> Inl e
      | Inr bs \<Rightarrow> Inr (utf8 bs))"

section \<open>The mail provider's resources\<close>

text \<open>
  The JSON resources of the provider, with a field an option where the code looks the
  key up: a missing key read with \<open>[...]\<close> is a \<open>KeyError\<close>, one read with \<open>in\<close> or
  \<open>.get\<close> takes the other branch.
\<close>

record header =
  hdr_name :: "string option"
  hdr_value :: "string option"

record part_body =
  body_data :: "string option"

record message_part =
  part_mimeType :: "string option"
  part_body :: "part_body option"

record gmail_payload =
  pl_headers :: "header list option"
  pl_parts :: "message_part list option"
  pl_body :: "part_body option"

record gmail_message =
  msg_payload :: "gmail_payload option"
  msg_threadId :: "string option"

text \<open>
  An entry of the list of unread messages; \<open>run\<close> reads its \<open>id\<close>, which every entry
  of the provider's list has.
\<close>

record msg_ref =
  ref_id :: string
  ref_threadId :: string

text \<open>
  What \<open>send_reply\<close> hands to the provider: the MIME message and the thread. Building
  and encoding the message belongs to the call: what either raises is the exception of
  \<open>messages_send\<close>.
\<close>

record outgoing =
  out_to :: string
  out_subject :: string
  out_text :: string
  out_threadId :: string

text \<open>
  The provider is outside the program: each call takes the state of the world \<open>'w\<close> and
  returns either the exception it raises or its result, with the new state.
  \<open>messages_list\<close> is the query \<open>is:unread\<close>, whose response may lack the key
  \<open>messages\<close>; \<open>messages_modify\<close> removes the label \<open>UNREAD\<close>.
\<close>

record 'w gmail_service =
  messages_list :: "'w \<Rightarrow> (exn + msg_ref list option) \<times> 'w"
  messages_get :: "string \<Rightarrow> 'w \<Rightarrow> (exn + gmail_message) \<times> 'w"
  messages_send :: "outgoing \<Rightarrow> 'w \<Rightarrow> (exn + unit) \<times> 'w"
  messages_modify :: "string \<Rightarrow> 'w \<Rightarrow> (exn + unit) \<times> 'w"

text \<open>
  The text-generation pipeline, called with the prompt (and the fixed arguments
  \<open>max_new_tokens=100\<close>, \<open>temperature=0.7\<close>); its response is a list of dictionaries.
\<close>

type_synonym 'w pipeline = "string \<Rightarrow> 'w \<Rightarrow> (exn + (string \<times> string) list list) \<times> 'w"

text \<open>
  The fields of \<open>EmailBot\<close>. The pipeline is \<open>None\<close> when the model was not loaded. The
  interval is the configured number of seconds, taken as a natural number (a negative one
  is not a configuration the loop can sleep on).
\<close>

record 'w email_bot =
  service :: "'w gmail_service"
  poll_interval :: nat
  model_name :: string
  chat_pipeline :: "'w pipeline option"

section \<open>The methods of the bot\<close>

subsection \<open>\<open>get_unreplied_emails\<close>\<close>

text \<open>
  The handler is \<open>except HttpError\<close>: that exception gives the empty list, any other one
  leaves the method.
\<close>

definition get_unreplied_emails :: "'w email_bot \<Rightarrow> 'w \<Rightarrow> (exn + msg_ref list) \<times> 'w" where
  "get_unreplied_emails self w =
     (case messages_list (service self) w of
        (Inr results, w') \<Rightarrow> (Inr (case results of None \<Rightarrow> [] | Some ms \<Rightarrow> ms), w')
      | (Inl e, w') \<Rightarrow> (if e = HttpError then (Inr [], w') else (Inl e, w')))"

subsection \<open>\<open>get_email_content\<close>\<close>

text \<open>
  The loop over the headers: it has no \<open>break\<close>, so each matching header overwrites the
  value found before it.
\<close>

fun scan_headers :: "header list \<Rightarrow> string \<Rightarrow> string \<Rightarrow> exn + (string \<times> string)" where
  "scan_headers [] subj frm = Inr (subj, frm)"
| "scan_headers (h # hs) subj frm =
     (case hdr_name h of
        None \<Rightarrow> Inl KeyError
      | Some n \<Rightarrow>
          (case (if n = ''Subject'' then subscript (hdr_value h) else Inr subj) of
             Inl e \<Rightarrow> Inl e
           | Inr subj' \<Rightarrow>
               (case (if n = ''From'' then subscript (hdr_value h) else Inr frm) of
                  Inl e \<Rightarrow> Inl e
                | Inr frm' \<Rightarrow> scan_headers hs subj' frm')))"

text \<open>The loop over the parts: the first \<open>text/plain\<close> part with data is decoded, then \<open>break\<close>.\<close>

fun scan_parts :: "utf8_decoder \<Rightarrow> message_part list \<Rightarrow> exn + string" where
  "scan_parts utf8 [] = Inr []"
| "scan_parts utf8 (p # ps) =
     (case part_mimeType p of
        None \<Rightarrow> Inl KeyError
      | Some mt \<Rightarrow>
          (if mt = ''text/plain'' then
             (case part_body p of
                None \<Rightarrow> scan_parts utf8 ps
              | Some b \<Rightarrow>
                  (case body_data b of
                     None \<Rightarrow> scan_parts utf8 ps
                   | Some d \<Rightarrow> decode_body utf8 d))
           else scan_parts utf8 ps))"

definition find_body :: "utf8_decoder \<Rightarrow> gmail_payload \<Rightarrow> exn + string" where
  "find_body utf8 pl =
     (case pl_parts pl of
        Some ps \<Rightarrow> scan_parts utf8 ps
      | None \<Rightarrow>
          (case pl_body pl of
             None \<Rightarrow> Inr []
           | Some b \<Rightarrow> (case body_data b of None \<Rightarrow> Inr [] | Some d \<Rightarrow> decode_body utf8 d)))"

text \<open>
  The body data those lines locate, before it is decoded: that of the first
  \<open>text/plain\<close> part with data when the payload has parts, that of the payload's own
  body otherwise, or none.
\<close>

fun locate_parts :: "message_part list \<Rightarrow> exn + string option" where
  "locate_parts [] = Inr None"
| "locate_parts (p # ps) =
     (case part_mimeType p of
        None \<Rightarrow> Inl KeyError
      | Some mt \<Rightarrow>
          (if mt = ''text/plain'' then
             (case part_body p of
                None \<Rightarrow> locate_parts ps
              | Some b \<Rightarrow>
                  (case body_data b of
                     None \<Rightarrow> locate_parts ps
                   | Some d \<Rightarrow> Inr (Some d)))
           else locate_parts ps))"

definition located_data :: "gmail_payload \<Rightarrow> exn + string option" where
  "located_data pl =
     (case pl_parts pl of
        Some ps \<Rightarrow> locate_parts ps
      | None \<Rightarrow> (case pl_body pl of None \<Rightarrow> Inr None | Some b \<Rightarrow> Inr (body_data b)))"

text \<open>The body of the \<open>try\<close> after the message has been fetched.\<close>

definition extract_content :: "utf8_decoder \<Rightarrow> gmail_message \<Rightarrow> string \<Rightarrow> exn + email_content" where
  "extract_content utf8 message mid =
     bind_exn (subscript (msg_payload message)) (\<lambda>pl.
     bind_exn (scan_headers (case pl_headers pl of None \<Rightarrow> [] | Some hs \<Rightarrow> hs) [] []) (\<lambda>(subj, frm).
     bind_exn (find_body utf8 pl) (\<lambda>b.
     bind_exn (subscript (msg_threadId message)) (\<lambda>tid.
       Inr \<lparr>subject = subj, from_email = frm, body = normalize_body b,
            thread_id = tid, message_id = mid\<rparr>))))"

definition get_email_content_try ::
  "utf8_decoder \<Rightarrow> 'w email_bot \<Rightarrow> string \<Rightarrow> 'w \<Rightarrow> (exn + email_content) \<times> 'w" where
  "get_email_content_try utf8 self mid w =
     (case messages_get (service self) mid w of
        (Inl e, w') \<Rightarrow> (Inl e, w')
      | (Inr message, w') \<Rightarrow> (extract_content utf8 message mid, w'))"

text \<open>\<open>except Exception\<close>: whatever the body raised, the method returns \<open>None\<close>.\<close>

definition get_email_content ::
  "utf8_decoder \<Rightarrow> 'w email_bot \<Rightarrow> string \<Rightarrow> 'w \<Rightarrow> email_content option \<times> 'w" where
  "get_email_content utf8 self mid w =
     (case get_email_content_try utf8 self mid w of
        (Inl e, w') \<Rightarrow> (None, w')
      | (Inr ec, w') \<Rightarrow> (Some ec, w'))"

subsection \<open>\<open>generate_ai_reply\<close> and \<open>generate_reply\<close>\<close>

definition build_prompt :: "email_content \<Rightarrow> string" where
  "build_prompt ec =
     ''Email subject: '' @ subject ec @ [CHR 0x0A] @
     ''Email content: '' @ body ec @ [CHR 0x0A] @
     ''Please write a short, helpful reply to this email:''"

text \<open>\<open>response[0]['generated_text']\<close>.\<close>

definition generated_text :: "(string \<times> string) list list \<Rightarrow> exn + string" where
  "generated_text response =
     (case response of
        [] \<Rightarrow> Inl IndexError
      | d # _ \<Rightarrow> subscript (map_of d ''generated_text''))"

text \<open>The lines after the call: prompt removed, stripped, first sentence, 200 characters.\<close>

definition post_process :: "string \<Rightarrow> string \<Rightarrow> string" where
  "post_process prompt gen = take 200 (first_segment (strip (remove_all prompt gen)))"

definition generate_ai_reply_try ::
  "'w pipeline \<Rightarrow> email_content \<Rightarrow> 'w \<Rightarrow> (exn + string) \<times> 'w" where
  "generate_ai_reply_try pipe ec w =
     (let prompt = build_prompt ec
      in case pipe prompt w of
           (Inl e, w') \<Rightarrow> (Inl e, w')
         | (Inr response, w') \<Rightarrow>
             (bind_exn (generated_text response) (\<lambda>gen. Inr (post_process prompt gen)), w'))"

definition generate_ai_reply :: "'w pipeline \<Rightarrow> email_content \<Rightarrow> 'w \<Rightarrow> string \<times> 'w" where
  "generate_ai_reply pipe ec w =
     (case generate_ai_reply_try pipe ec w of
        (Inl e, w') \<Rightarrow> (generate_simple_reply ec, w')
      | (Inr reply, w') \<Rightarrow> (reply, w'))"

definition generate_reply :: "'w email_bot \<Rightarrow> email_content \<Rightarrow> 'w \<Rightarrow> string \<times> 'w" where
  "generate_reply self ec w =
     (case chat_pipeline self of
        Some pipe \<Rightarrow> generate_ai_reply pipe ec w
      | None \<Rightarrow> (generate_simple_reply ec, w))"

subsection \<open>\<open>send_reply\<close> and \<open>mark_as_replied\<close>\<close>

definition send_reply :: "'w email_bot \<Rightarrow> string \<Rightarrow> string \<Rightarrow> string \<Rightarrow> 'w \<Rightarrow> bool \<times> 'w" where
  "send_reply self tid reply_text to_email w =
     (case messages_send (service self)
             \<lparr>out_to = to_email, out_subject = ''Re: Auto-reply'',
              out_text = reply_text, out_threadId = tid\<rparr> w of
        (Inr u, w') \<Rightarrow> (True, w')
      | (Inl e, w') \<Rightarrow> (False, w'))"

definition mark_as_replied :: "'w email_bot \<Rightarrow> string \<Rightarrow> 'w \<Rightarrow> 'w" where
  "mark_as_replied self mid w = snd (messages_modify (service self) mid w)"

subsection \<open>\<open>run\<close>\<close>

text \<open>
  What a cycle does, in order: the replies it generated, the calls of \<open>send_reply\<close> with
  what they returned, the calls of \<open>mark_as_replied\<close>, and the sleep.
\<close>

datatype event =
    Generated string string
  | SendReply string string string bool
  | MarkAsReplied string
  | Sleep nat

text \<open>The body of the \<open>for\<close> loop, for one entry of the list.\<close>

definition process_message ::
  "utf8_decoder \<Rightarrow> 'w email_bot \<Rightarrow> msg_ref \<Rightarrow> 'w \<Rightarrow> event list \<times> 'w" where
  "process_message utf8 self m w =
     (case get_email_content utf8 self (ref_id m) w of
        (None, w1) \<Rightarrow> ([], w1)
      | (Some ec, w1) \<Rightarrow>
          (case generate_reply self ec w1 of
             (reply, w2) \<Rightarrow>
               (case send_reply self (thread_id ec) reply (from_email ec) w2 of
                  (True, w3) \<Rightarrow>
                    ([Generated (ref_id m) reply,
                      SendReply (thread_id ec) reply (from_email ec) True,
                      MarkAsReplied (ref_id m)],
                     mark_as_replied self (ref_id m) w3)
                | (False, w3) \<Rightarrow>
                    ([Generated (ref_id m) reply,
                      SendReply (thread_id ec) reply (from_email ec) False],
                     w3))))"

fun process_batch ::
  "utf8_decoder \<Rightarrow> 'w email_bot \<Rightarrow> msg_ref list \<Rightarrow> 'w \<Rightarrow> event list \<times> 'w" where
  "process_batch utf8 self [] w = ([], w)"
| "process_batch utf8 self (m # ms) w =
     (case process_message utf8 self m w of
        (es, w1) \<Rightarrow>
          (case process_batch utf8 self ms w1 of
             (es', w2) \<Rightarrow> (es @ es', w2)))"

text \<open>
  One turn of \<open>while True\<close>: list, drain, sleep. An exception that leaves
  \<open>get_unreplied_emails\<close> leaves \<open>run\<close> too, whose only handler is for
  \<open>KeyboardInterrupt\<close>.
\<close>

definition poll_cycle ::
  "utf8_decoder \<Rightarrow> 'w email_bot \<Rightarrow> 'w \<Rightarrow> (exn + event list) \<times> 'w" where
  "poll_cycle utf8 self w =
     (case get_unreplied_emails self w of
        (Inl e, w1) \<Rightarrow> (Inl e, w1)
      | (Inr messages, w1) \<Rightarrow>
          (case process_batch utf8 self messages w1 of
             (es, w2) \<Rightarrow> (Inr (es @ [Sleep (poll_interval self)]), w2)))"

text \<open>
  \<open>run\<close> for a number of turns of the loop (the loop itself ends only when the process is
  stopped from outside): the events of the turns, or the exception that ended it.
\<close>

fun run :: "utf8_decoder \<Rightarrow> 'w email_bot \<Rightarrow> nat \<Rightarrow> 'w \<Rightarrow> (exn + event list) \<times> 'w" where
  "run utf8 self 0 w = (Inr [], w)"
| "run utf8 self (Suc n) w =
     (case poll_cycle utf8 self w of
        (Inl e, w1) \<Rightarrow> (Inl e, w1)
      | (Inr es, w1) \<Rightarrow>
          (case run utf8 self n w1 of
             (Inl e, w2) \<Rightarrow> (Inl e, w2)
           | (Inr es', w2) \<Rightarrow> (Inr (es @ es'), w2)))"

section \<open>A mailbox to run the bot against\<close>

text \<open>
  An in-memory provider: the stored messages, the ids still unread, the replies sent,
  whether sending works, and the exception the listing raises, if any. Listing and
  fetching never change it; a fetch of an unknown id is an \<open>HttpError\<close>; a send either
  appends to the replies or raises; marking removes the id from the unread ones.
\<close>

record mailbox =
  stored :: "(string \<times> gmail_message) list"
  unread :: "string list"
  sent_replies :: "outgoing list"
  send_works :: bool
  list_raises :: "exn option"

definition mailbox_service :: "mailbox gmail_service" where
  "mailbox_service =
     \<lparr>messages_list = (\<lambda>w.
        ((case list_raises w of
            Some e \<Rightarrow> Inl e
          | None \<Rightarrow>
              Inr (if unread w = [] then None
                   else Some (map (\<lambda>i. \<lparr>ref_id = i, ref_threadId = i\<rparr>) (unread w)))), w)),
      messages_get = (\<lambda>mid w.
        ((case map_of (stored w) mid of None \<Rightarrow> Inl HttpError | Some msg \<Rightarrow> Inr msg), w)),
      messages_send = (\<lambda>out w.
        (if send_works w then (Inr (), w\<lparr>sent_replies := sent_replies w @ [out]\<rparr>)
         else (Inl OtherException, w))),
      messages_modify = (\<lambda>mid w. (Inr (), w\<lparr>unread := removeAll mid (unread w)\<rparr>))\<rparr>"

definition mailbox_bot :: "mailbox pipeline option \<Rightarrow> mailbox email_bot" where
  "mailbox_bot pipe =
     \<lparr>service = mailbox_service, poll_interval = 60,
      model_name = ''microsoft/DialoGPT-small'', chat_pipeline = pipe\<rparr>"

text \<open>A header with its name and value; a single-part message with headers and body data.\<close>

definition mk_header :: "string \<times> string \<Rightarrow> header" where
  "mk_header nv = \<lparr>hdr_name = Some (fst nv), hdr_value = Some (snd nv)\<rparr>"

definition plain_message :: "(string \<times> string) list \<Rightarrow> string \<Rightarrow> string \<Rightarrow> gmail_message" where
  "plain_message hs d tid =
     \<lparr>msg_payload = Some
        \<lparr>pl_headers = Some (map mk_header hs),
         pl_parts = None,
         pl_body = Some \<lparr>body_data = Some d\<rparr>\<rparr>,
      msg_threadId = Some tid\<rparr>"

text \<open>A message the provider returns without a payload: its extraction fails.\<close>

definition broken_message :: gmail_message where
  "broken_message = \<lparr>msg_payload = None, msg_threadId = Some ''t''\<rparr>"

text \<open>A backend that raises on every call, and one that echoes the prompt before its text.\<close>

definition failing_pipeline :: "'w pipeline" where
  "failing_pipeline prompt w = (Inl OtherException, w)"

definition echo_pipeline :: "string \<Rightarrow> 'w pipeline" where
  "echo_pipeline txt prompt w = (Inr [[(''generated_text'', prompt @ txt)]], w)"

text \<open>A message content with a given subject and body, to evaluate the replies on.\<close>

definition email :: "string \<Rightarrow> string \<Rightarrow> email_content" where
  "email subj b =
     \<lparr>subject = subj, from_email = ''sender@example.org'', body = b,
      thread_id = ''t1'', message_id = ''m1''\<rparr>"

text \<open>
  Two mailboxes: one unread message, and three unread messages of which the second has no
  payload. The body data \<open>SGVsbG8\<close> is the base64 of \<open>Hello\<close>.
\<close>

definition one_message :: mailbox where
  "one_message =
     \<lparr>stored =
        [(''m1'', plain_message [(''Subject'', ''Meeting tomorrow''), (''From'', ''alice@example.org'')]
                   ''SGVsbG8'' ''t1'')],
      unread = [''m1''], sent_replies = [], send_works = True, list_raises = None\<rparr>"

text \<open>
  A message with two \<open>Subject\<close> headers, and one whose body data is not base64: nine
  characters of the alphabet, one more than a multiple of four.
\<close>

definition two_subjects :: mailbox where
  "two_subjects =
     \<lparr>stored =
        [(''m1'', plain_message
                   [(''Subject'', ''first''), (''From'', ''alice@example.org''), (''Subject'', ''second'')]
                   ''SGVsbG8'' ''t1'')],
      unread = [''m1''], sent_replies = [], send_works = True, list_raises = None\<rparr>"

definition undecodable :: mailbox where
  "undecodable =
     \<lparr>stored =
        [(''m1'', plain_message [(''Subject'', ''Hello''), (''From'', ''alice@example.org'')]
                   ''SGVsbG8hx'' ''t1'')],
      unread = [''m1''], sent_replies = [], send_works = True, list_raises = None\<rparr>"

definition three_messages :: mailbox where
  "three_messages =
     \<lparr>stored =
        [(''m1'', plain_message [(''Subject'', ''Meeting tomorrow''), (''From'', ''alice@example.org'')]
                   ''SGVsbG8'' ''t1''),
         (''m2'', broken_message),
         (''m3'', plain_message [(''From'', ''carol@example.org'')] ''SGVsbG8'' ''t3'')],
      unread = [''m1'', ''m2'', ''m3''], sent_replies = [], send_works = True,
      list_raises = None\<rparr>"

section \<open>Facts about the string operations\<close>

subsection \<open>Substring search\<close>





subsection \<open>Whitespace\<close>

lemma isspace_space: "isspace CHR '' ''"
  by (simp add: isspace_def)

lemma sub_ws_run:
  assumes "ws \<noteq> []" "list_all isspace ws" "ys = [] \<or> \<not> isspace (hd ys)"
  shows "sub_ws (ws @ ys) = CHR '' '' # sub_ws ys"
proof -
  obtain c cs where ws: "ws = c # cs" using assms(1) by (cases ws) auto
  have "dropWhile isspace (cs @ ys) = ys"
    using assms(2,3) ws by (cases ys) (auto simp: list_all_iff dropWhile_append)
  then show ?thesis using assms(2) ws by simp
qed

lemma sub_ws_spaces: "list_all (\<lambda>c. isspace c \<longrightarrow> c = CHR '' '') (sub_ws s)"
  by (induction s rule: sub_ws.induct) auto

lemma sub_ws_filter: "filter (\<lambda>c. \<not> isspace c) (sub_ws s) = filter (\<lambda>c. \<not> isspace c) s"
proof (induction s rule: sub_ws.induct)
  case 1 show ?case by simp
next
  case (2 c cs)
  have "filter (\<lambda>c. \<not> isspace c) (dropWhile isspace cs) = filter (\<lambda>c. \<not> isspace c) cs"
    by (induction cs) auto
  with 2 show ?case by (auto simp: isspace_space)
qed

lemma sub_ws_no_double: "\<not> sublist [CHR '' '', CHR '' ''] (sub_ws s)"
proof (induction s rule: sub_ws.induct)
  case 1 show ?case by simp
next
  case (2 c cs)
  show ?case
  proof (cases "isspace c")
    case True
    let ?r = "dropWhile isspace cs"
    have nd: "\<not> sublist [CHR '' '', CHR '' ''] (sub_ws ?r)" using 2(1) True by simp
    have hd: "sub_ws ?r = [] \<or> hd (sub_ws ?r) \<noteq> CHR '' ''"
    proof (cases ?r)
      case Nil then show ?thesis by (simp only: sub_ws.simps simp_thms)
    next
      case (Cons d ds)
      then have "\<not> isspace d" by (metis hd_dropWhile list.sel(1) list.distinct(1))
      then show ?thesis using Cons isspace_space by auto
    qed
    show ?thesis using True nd hd
      by (cases "sub_ws ?r") (auto simp: sublist_Cons_right)
  next
    case False
    then have "c \<noteq> CHR '' ''" using isspace_space by auto
    then show ?thesis using False 2(2) by (auto simp: sublist_Cons_right)
  qed
qed

lemma strip_decomp:
  "\<exists>pre suf. s = pre @ strip s @ suf \<and> list_all isspace pre \<and> list_all isspace suf"
proof -
  let ?a = "takeWhile isspace s" and ?m = "dropWhile isspace s"
  let ?b = "rev (takeWhile isspace (rev ?m))"
  have 1: "s = ?a @ ?m" by simp
  have "rev ?m = takeWhile isspace (rev ?m) @ dropWhile isspace (rev ?m)" by simp
  then have "?m = rev (dropWhile isspace (rev ?m)) @ ?b"
    by (metis rev_append rev_rev_ident)
  then have 2: "?m = strip s @ ?b" by (simp add: strip_def)
  have "s = ?a @ strip s @ ?b" using 1 2 by metis
  moreover have "list_all isspace ?a" by (simp add: list_all_iff) (metis set_takeWhileD)
  moreover have "list_all isspace ?b" by (simp add: list_all_iff) (metis set_takeWhileD)
  ultimately show ?thesis by blast
qed

lemma strip_ends:
  "strip s = [] \<or> (\<not> isspace (hd (strip s)) \<and> \<not> isspace (last (strip s)))"
proof (cases "strip s = []")
  case True then show ?thesis by simp
next
  case False
  let ?m = "dropWhile isspace s"
  let ?r = "dropWhile isspace (rev ?m)"
  have r: "?r \<noteq> []" using False by (simp add: strip_def)
  have l: "\<not> isspace (hd ?r)" using r by (rule hd_dropWhile)
  have last: "last (strip s) = hd ?r" using r by (simp add: strip_def last_rev)
  have mne: "?m \<noteq> []"
  proof
    assume "?m = []"
    then have "?r = []" by (simp only: rev.simps dropWhile.simps)
    with r show False by contradiction
  qed
  have hm: "\<not> isspace (hd ?m)" using mne by (rule hd_dropWhile)
  have "\<exists>suf. ?m = strip s @ suf"
    by (metis append_take_drop_id dropWhile_eq_drop rev_append rev_rev_ident strip_def takeWhile_dropWhile_id)
  then obtain suf where "?m = strip s @ suf" by blast
  then have "hd ?m = hd (strip s)" using False by (metis hd_append2)
  then show ?thesis using hm l last by simp
qed

lemma length_normalize_body: "length (normalize_body b) \<le> 500"
  by (simp add: normalize_body_def)

lemma length_normalize_body_long:
  "500 < length (strip (sub_ws b)) \<Longrightarrow> length (normalize_body b) = 500"
  by (simp add: normalize_body_def)

lemma sub_ws_id: "list_all (\<lambda>c. \<not> isspace c) s \<Longrightarrow> sub_ws s = s"
  by (induction s) auto

section \<open>The rule-based reply\<close>

text \<open>
  Claim C3, as the specification has it: the reply is selected by testing the lower-cased
  concatenation of subject and body. The code puts one space between the two, so a
  keyword never matches across the boundary: for subject \<open>h\<close> and body \<open>i\<close> the
  concatenation \<open>hi\<close> holds a greeting keyword and would select the greeting reply, while
  the code tests \<open>h i\<close> and returns the default reply.
\<close>

theorem rule_reply_concatenation_counterexample:
  "select_reply (spec_text_of (email ''h'' ''i'')) = canned_reply Greeting \<and>
   generate_simple_reply (email ''h'' ''i'') = default_reply \<and>
   generate_simple_reply (email ''h'' ''i'') \<noteq> select_reply (spec_text_of (email ''h'' ''i''))"
  by code_simp

text \<open>
  Claim C3, amended: for every message content, the reply is that of the first category,
  in the order greeting, question/help, urgency, gratitude, scheduling, one of whose
  keywords occurs in the lower-cased text made of the subject, one space and the body;
  the default reply when no category matches. The subject \<open>hello, need urgent help\<close>
  holds greeting, help and urgency keywords and gets the greeting reply.
\<close>

theorem rule_reply_priority:
  "generate_simple_reply ec =
     (case find (\<lambda>c. any_in (category_keywords c) (lower (subject ec @ '' '' @ body ec)))
             [Greeting, Question, Urgency, Gratitude, Scheduling] of
        None \<Rightarrow> default_reply
      | Some c \<Rightarrow> canned_reply c) \<and>
   any_in (category_keywords Greeting) (reply_text_of (email ''hello, need urgent help'' [])) \<and>
   any_in (category_keywords Question) (reply_text_of (email ''hello, need urgent help'' [])) \<and>
   any_in (category_keywords Urgency) (reply_text_of (email ''hello, need urgent help'' [])) \<and>
   generate_simple_reply (email ''hello, need urgent help'' []) = canned_reply Greeting"
proof -
  have "generate_simple_reply ec =
     (case find (\<lambda>c. any_in (category_keywords c) (lower (subject ec @ '' '' @ body ec)))
             [Greeting, Question, Urgency, Gratitude, Scheduling] of
        None \<Rightarrow> default_reply
      | Some c \<Rightarrow> canned_reply c)"
    by (simp add: generate_simple_reply_def reply_text_of_def select_reply_def)
  moreover have
    "any_in (category_keywords Greeting) (reply_text_of (email ''hello, need urgent help'' [])) \<and>
     any_in (category_keywords Question) (reply_text_of (email ''hello, need urgent help'' [])) \<and>
     any_in (category_keywords Urgency) (reply_text_of (email ''hello, need urgent help'' [])) \<and>
     generate_simple_reply (email ''hello, need urgent help'' []) = canned_reply Greeting"
    by code_simp
  ultimately show ?thesis by blast
qed



section \<open>The normalisation of the body\<close>

text \<open>
  Claim C4, as the specification has it: a body longer than the cap comes out at exactly
  500 characters. The cap applies after the whitespace has been collapsed and trimmed: a
  body of 501 characters, one letter and 500 spaces, comes out as that one letter.
\<close>

theorem normalize_body_length_counterexample:
  "500 < length (CHR ''a'' # replicate 500 CHR '' '') \<and>
   normalize_body (CHR ''a'' # replicate 500 CHR '' '') = ''a''"
proof -
  have "sub_ws (replicate 500 CHR '' '' @ []) = CHR '' '' # sub_ws []"
    by (rule sub_ws_run) (simp_all add: list_all_iff isspace_space)
  then have "sub_ws (CHR ''a'' # replicate 500 CHR '' '') = ''a ''"
    by (simp add: isspace_def)
  then show ?thesis
    by (simp add: normalize_body_def strip_def isspace_def)
qed

text \<open>
  Claim C4, amended: the normalisation collapses every whitespace run to a single space
  (a character that is not whitespace is kept, a maximal run of whitespace becomes one
  space, so that the only whitespace left is single spaces and the other characters are
  those of the body in their order), trims leading and trailing whitespace, and then
  truncates to at most 500 characters; a body whose collapsed and trimmed text is longer
  than the cap comes out at exactly 500 characters; the body \<open>a\n\n\tb\<close> normalises to
  \<open>a b\<close>.
\<close>

theorem normalize_body_collapses_trims_truncates:
  "(\<not> isspace c \<longrightarrow> sub_ws (c # cs) = c # sub_ws cs) \<and>
   (ws \<noteq> [] \<and> list_all isspace ws \<and> (ys = [] \<or> \<not> isspace (hd ys))
      \<longrightarrow> sub_ws (ws @ ys) = CHR '' '' # sub_ws ys) \<and>
   (\<exists>pre suf. sub_ws b = pre @ strip (sub_ws b) @ suf \<and>
      list_all isspace pre \<and> list_all isspace suf) \<and>
   (strip (sub_ws b) = [] \<or>
      (\<not> isspace (hd (strip (sub_ws b))) \<and> \<not> isspace (last (strip (sub_ws b))))) \<and>
   list_all (\<lambda>c. isspace c \<longrightarrow> c = CHR '' '') (sub_ws b) \<and>
   \<not> sublist [CHR '' '', CHR '' ''] (sub_ws b) \<and>
   filter (\<lambda>c. \<not> isspace c) (sub_ws b) = filter (\<lambda>c. \<not> isspace c) b \<and>
   normalize_body b = take 500 (strip (sub_ws b)) \<and>
   length (normalize_body b) \<le> 500 \<and>
   (500 < length (strip (sub_ws b)) \<longrightarrow> length (normalize_body b) = 500) \<and>
   normalize_body [CHR ''a'', CHR 0x0A, CHR 0x0A, CHR 0x09, CHR ''b''] = ''a b''"
proof -
  have "normalize_body [CHR ''a'', CHR 0x0A, CHR 0x0A, CHR 0x09, CHR ''b''] = ''a b''"
    by code_simp
  then show ?thesis
    using sub_ws_run [of ws ys] strip_decomp [of "sub_ws b"] strip_ends [of "sub_ws b"]
      length_normalize_body [of b] length_normalize_body_long [of b]
      sub_ws_spaces [of b] sub_ws_no_double [of b] sub_ws_filter [of b]
    by (simp add: normalize_body_def)
qed

text \<open>
  C4 at concrete inputs: a letter, a run of a newline and a tab before \<open>b\<close>, and a body
  of 501 letters, which comes out at 500 characters.
\<close>

theorem normalize_body_collapses_trims_truncates_witness:
  "\<not> isspace CHR ''a'' \<and>
   sub_ws (CHR ''a'' # ''  b'') = CHR ''a'' # sub_ws ''  b'' \<and>
   list_all isspace [CHR 0x0A, CHR 0x09] \<and>
   sub_ws ([CHR 0x0A, CHR 0x09] @ ''b'') = CHR '' '' # sub_ws ''b'' \<and>
   500 < length (strip (sub_ws (replicate 501 CHR ''a''))) \<and>
   length (normalize_body (replicate 501 CHR ''a'')) = 500"
proof -
  have a: "\<not> isspace CHR ''a''" by (simp add: isspace_def)
  have b: "\<not> isspace CHR ''b''" by (simp add: isspace_def)
  have ws: "list_all isspace [CHR 0x0A, CHR 0x09]" by (simp add: isspace_def)
  have "sub_ws (replicate 501 CHR ''a'') = replicate 501 CHR ''a''"
    by (rule sub_ws_id) (simp add: list_all_iff a)
  then have long: "500 < length (strip (sub_ws (replicate 501 CHR ''a'')))"
    by (simp add: strip_def a)
  show ?thesis
    using a b ws long
      normalize_body_collapses_trims_truncates
        [where c = "CHR ''a''" and cs = "''  b''" and ws = "[CHR 0x0A, CHR 0x09]"
           and ys = "''b''" and b = "replicate 501 CHR ''a''"]
    by simp
qed

section \<open>The generated reply\<close>

lemma remove_all_echo: "p \<noteq> [] \<Longrightarrow> remove_all p (p @ rest) = remove_all p rest"
  by (cases p) simp_all

lemma remove_all_absent: "\<not> sublist p s \<Longrightarrow> remove_all p s = s"
proof (induction p s rule: remove_all.induct)
  case (1 old) show ?case by simp
next
  case (2 old c cs)
  show ?case
  proof (cases "old = []")
    case True then show ?thesis by simp
  next
    case False
    have np: "\<not> prefix old (c # cs)" and ns: "\<not> sublist old cs"
      using "2.prems" by (auto simp: sublist_Cons_right)
    show ?thesis using False np ns "2.IH"(2) by simp
  qed
qed

lemma first_segment_split:
  "\<exists>rest. s = first_segment s @ rest \<and> (rest = [] \<or> sentence_end (hd rest))"
proof -
  let ?r = "dropWhile (\<lambda>c. \<not> sentence_end c) s"
  have "s = first_segment s @ ?r" by (simp add: first_segment_def)
  moreover have "?r = [] \<or> sentence_end (hd ?r)"
    by (metis (mono_tags, lifting) hd_dropWhile)
  ultimately show ?thesis by blast
qed

lemma first_segment_clean: "list_all (\<lambda>c. \<not> sentence_end c) (first_segment s)"
  by (simp add: first_segment_def list_all_iff) (metis set_takeWhileD)

lemma post_process_clean: "list_all (\<lambda>c. \<not> sentence_end c) (post_process p g)"
  using first_segment_clean [of "strip (remove_all p g)"]
  by (auto simp: post_process_def list_all_iff dest: in_set_takeD)

lemma build_prompt_nonempty: "build_prompt ec \<noteq> []"
  by (simp add: build_prompt_def)

lemma generate_reply_ok:
  assumes "chat_pipeline self = Some pipe"
    and "pipe (build_prompt ec) w = (Inr response, w')"
    and "generated_text response = Inr gen"
  shows "generate_reply self ec w = (post_process (build_prompt ec) gen, w')"
  using assms
  by (simp add: generate_reply_def generate_ai_reply_def generate_ai_reply_try_def bind_exn_def)

lemma generate_reply_raised:
  assumes "chat_pipeline self = Some pipe"
    and "generate_ai_reply_try pipe ec w = (Inl e, w')"
  shows "generate_reply self ec w = (generate_simple_reply ec, w')"
  using assms by (simp add: generate_reply_def generate_ai_reply_def)

lemma try_backend_raises:
  "pipe (build_prompt ec) w = (Inl e, w') \<Longrightarrow> generate_ai_reply_try pipe ec w = (Inl e, w')"
  by (simp add: generate_ai_reply_try_def)

lemma try_malformed_raises:
  "pipe (build_prompt ec) w = (Inr response, w') \<Longrightarrow> generated_text response = Inl e
     \<Longrightarrow> generate_ai_reply_try pipe ec w = (Inl e, w')"
  by (simp add: generate_ai_reply_try_def bind_exn_def)

lemma simple_reply_canned:
  "generate_simple_reply ec \<in> set (default_reply # map canned_reply priority_order)"
  by (simp add: generate_simple_reply_def select_reply_def priority_order_def)

text \<open>
  Claim C9: for every response of the backend that holds a generated text, the reply is
  that text with the prompt removed (an echo of the prompt in front of the text is cut
  off), cut at the first of the characters \<open>.\<close>, \<open>!\<close>, \<open>?\<close>, so that the reply is the
  first segment and holds none of them, and truncated to at most 200 characters.
\<close>

theorem ai_reply_post_processing:
  assumes "chat_pipeline self = Some pipe"
    and "pipe (build_prompt ec) w = (Inr response, w')"
    and "generated_text response = Inr gen"
  shows "generate_reply self ec w = (post_process (build_prompt ec) gen, w') \<and>
     post_process (build_prompt ec) gen =
       take 200 (first_segment (strip (remove_all (build_prompt ec) gen))) \<and>
     (\<forall>rest. gen = build_prompt ec @ rest \<and> \<not> sublist (build_prompt ec) rest \<longrightarrow>
        remove_all (build_prompt ec) gen = rest) \<and>
     (\<exists>rest. strip (remove_all (build_prompt ec) gen) =
        first_segment (strip (remove_all (build_prompt ec) gen)) @ rest \<and>
        (rest = [] \<or> sentence_end (hd rest))) \<and>
     list_all (\<lambda>c. \<not> sentence_end c) (post_process (build_prompt ec) gen) \<and>
     length (post_process (build_prompt ec) gen) \<le> 200"
proof -
  have "\<forall>rest. gen = build_prompt ec @ rest \<and> \<not> sublist (build_prompt ec) rest \<longrightarrow>
        remove_all (build_prompt ec) gen = rest"
    by (simp add: remove_all_echo build_prompt_nonempty remove_all_absent)
  moreover have "length (post_process (build_prompt ec) gen) \<le> 200"
    by (simp add: post_process_def)
  ultimately show ?thesis
    using generate_reply_ok [OF assms] post_process_clean
      first_segment_split [of "strip (remove_all (build_prompt ec) gen)"]
    by (simp add: post_process_def)
qed

text \<open>
  C9 with a backend that echoes the prompt and then answers in two sentences: the reply
  is the first sentence.
\<close>

theorem ai_reply_post_processing_witness:
  "generate_reply (mailbox_bot (Some (echo_pipeline ''  Sure, I can help. Goodbye!'')))
     (email ''Question'' ''Can you help?'') one_message
   = (''Sure, I can help'', one_message)"
proof -
  let ?txt = "''  Sure, I can help. Goodbye!''"
  let ?e = "email ''Question'' ''Can you help?''"
  have p: "chat_pipeline (mailbox_bot (Some (echo_pipeline ?txt))) = Some (echo_pipeline ?txt)"
    by (simp add: mailbox_bot_def)
  have r: "echo_pipeline ?txt (build_prompt ?e) one_message
             = (Inr [[(''generated_text'', build_prompt ?e @ ?txt)]], one_message)"
    by (simp add: echo_pipeline_def)
  have g: "generated_text [[(''generated_text'', build_prompt ?e @ ?txt)]]
             = Inr (build_prompt ?e @ ?txt)"
    by (simp add: generated_text_def subscript_def)
  have a: "\<not> sublist (build_prompt ?e) ?txt" by code_simp
  have f: "take 200 (first_segment (strip ?txt)) = ''Sure, I can help''" by code_simp
  from ai_reply_post_processing [OF p r g] a f show ?thesis by simp
qed

text \<open>
  Claim C2: \<open>generate_reply\<close> returns a reply text for every message content. Without a
  backend the reply is the rule-based one; with a backend, whenever the backend raises,
  or its response is malformed, or anything else in the body of the \<open>try\<close> raises, the
  result is exactly the rule-based reply, which is always one of the six fixed texts.
\<close>

theorem generate_reply_falls_back:
  "(chat_pipeline self = None \<longrightarrow> generate_reply self ec w = (generate_simple_reply ec, w)) \<and>
   (chat_pipeline self = Some pipe \<and> pipe (build_prompt ec) w = (Inl e, w') \<longrightarrow>
      generate_reply self ec w = (generate_simple_reply ec, w')) \<and>
   (chat_pipeline self = Some pipe \<and> pipe (build_prompt ec) w = (Inr response, w') \<and>
      generated_text response = Inl e \<longrightarrow>
      generate_reply self ec w = (generate_simple_reply ec, w')) \<and>
   (chat_pipeline self = Some pipe \<and> generate_ai_reply_try pipe ec w = (Inl e, w') \<longrightarrow>
      generate_reply self ec w = (generate_simple_reply ec, w')) \<and>
   generate_simple_reply ec \<in> set (default_reply # map canned_reply priority_order)"
  using generate_reply_raised [of self pipe ec w e w'] try_backend_raises [of pipe ec w e w']
    try_malformed_raises [of pipe ec w response w' e] simple_reply_canned [of ec]
  by (auto simp: generate_reply_def)

text \<open>
  C2 with a backend that raises on every call: the reply is the rule-based one, as it is
  without a backend.
\<close>

theorem generate_reply_falls_back_witness:
  "failing_pipeline (build_prompt (email ''Urgent'' ''Please call'')) one_message
     = (Inl OtherException, one_message) \<and>
   generate_reply (mailbox_bot (Some failing_pipeline)) (email ''Urgent'' ''Please call'') one_message
     = (canned_reply Urgency, one_message) \<and>
   generate_reply (mailbox_bot None) (email ''Urgent'' ''Please call'') one_message
     = (canned_reply Urgency, one_message)"
proof -
  have p: "chat_pipeline (mailbox_bot (Some failing_pipeline)) = Some failing_pipeline"
    and n: "chat_pipeline (mailbox_bot None) = None"
    by (simp_all add: mailbox_bot_def)
  have r: "failing_pipeline (build_prompt (email ''Urgent'' ''Please call'')) one_message
             = (Inl OtherException, one_message)"
    by (simp add: failing_pipeline_def)
  have s: "generate_simple_reply (email ''Urgent'' ''Please call'') = canned_reply Urgency"
    by code_simp
  show ?thesis
    using p n r s
      generate_reply_falls_back
        [of "mailbox_bot (Some failing_pipeline)" "email ''Urgent'' ''Please call''" one_message
            failing_pipeline OtherException one_message]
      generate_reply_falls_back
        [of "mailbox_bot None" "email ''Urgent'' ''Please call''" one_message]
    by simp
qed

section \<open>The extraction of the content\<close>

lemma scan_headers_step:
  "scan_headers (mk_header (n, v) # hs) subj frm =
     scan_headers hs (if n = ''Subject'' then v else subj) (if n = ''From'' then v else frm)"
  by (simp add: mk_header_def subscript_def)

lemma scan_headers_pairs:
  "scan_headers (map mk_header pairs) subj frm =
     Inr (case map_of (rev pairs) ''Subject'' of None \<Rightarrow> subj | Some v \<Rightarrow> v,
          case map_of (rev pairs) ''From'' of None \<Rightarrow> frm | Some v \<Rightarrow> v)"
proof (induction pairs arbitrary: subj frm)
  case Nil show ?case by simp
next
  case (Cons nv pairs)
  obtain n v where nv: "nv = (n, v)" by (cases nv)
  have step: "scan_headers (map mk_header (nv # pairs)) subj frm =
      scan_headers (map mk_header pairs)
        (if n = ''Subject'' then v else subj) (if n = ''From'' then v else frm)"
    by (simp only: nv list.map scan_headers_step)
  show ?case
    unfolding step Cons.IH
    by (auto simp: nv map_add_def split: option.splits)
qed

lemma find_body_located:
  "find_body utf8 pl =
     bind_exn (located_data pl) (\<lambda>d. case d of None \<Rightarrow> Inr [] | Some x \<Rightarrow> decode_body utf8 x)"
proof -
  have "scan_parts utf8 ps =
     bind_exn (locate_parts ps) (\<lambda>d. case d of None \<Rightarrow> Inr [] | Some x \<Rightarrow> decode_body utf8 x)" for ps
    by (induction ps) (auto simp: bind_exn_def split: option.splits)
  then show ?thesis
    by (simp add: find_body_def located_data_def bind_exn_def split: option.splits)
qed

lemma get_email_content_fetched:
  "messages_get (service self) mid w = (Inr message, w') \<Longrightarrow>
     get_email_content utf8 self mid w =
       (case extract_content utf8 message mid of Inl e \<Rightarrow> None | Inr ec \<Rightarrow> Some ec, w')"
  by (simp add: get_email_content_def get_email_content_try_def split: sum.splits)

lemma get_email_content_fetch_fails:
  "messages_get (service self) mid w = (Inl e, w') \<Longrightarrow> get_email_content utf8 self mid w = (None, w')"
  by (simp add: get_email_content_def get_email_content_try_def)

lemma mailbox_get:
  "messages_get (service (mailbox_bot pipe)) mid w =
     ((case map_of (stored w) mid of None \<Rightarrow> Inl HttpError | Some msg \<Rightarrow> Inr msg), w)"
  by (simp add: mailbox_bot_def mailbox_service_def)

text \<open>
  Claim C5, as the specification has it: of several \<open>Subject\<close> headers the first one
  wins. The loop over the headers has no \<open>break\<close> and overwrites: for the headers
  \<open>Subject: first\<close>, \<open>From\<close>, \<open>Subject: second\<close> the first occurrence is \<open>first\<close> and
  the extracted subject is \<open>second\<close>.
\<close>

theorem header_first_occurrence_counterexample:
  "map_of [(''Subject'', ''first''), (''From'', ''alice@example.org''), (''Subject'', ''second'')]
      ''Subject'' = Some ''first'' \<and>
   map_option subject (fst (get_email_content ascii_utf8 (mailbox_bot None) ''m1'' two_subjects))
      = Some ''second''"
  by code_simp

text \<open>
  Claim C5, amended: when the header list of a fetched message holds several \<open>Subject\<close>
  (or \<open>From\<close>) headers, extraction returns the value of the last occurrence; when the
  header is absent, or the payload has no header list, the field is the empty string and
  extraction does not fail. (The headers are name and value pairs, the body decodes and
  the message has its thread id.)
\<close>

theorem header_last_occurrence_wins:
  assumes "messages_get (service self) mid w = (Inr message, w')"
    and "msg_payload message = Some pl"
    and "(case pl_headers pl of None \<Rightarrow> [] | Some hs \<Rightarrow> hs) = map mk_header pairs"
    and "find_body utf8 pl = Inr raw"
    and "msg_threadId message = Some tid"
  shows "get_email_content utf8 self mid w =
     (Some \<lparr>subject = (case map_of (rev pairs) ''Subject'' of None \<Rightarrow> [] | Some v \<Rightarrow> v),
            from_email = (case map_of (rev pairs) ''From'' of None \<Rightarrow> [] | Some v \<Rightarrow> v),
            body = normalize_body raw, thread_id = tid, message_id = mid\<rparr>, w')"
  using assms
  by (simp add: get_email_content_fetched extract_content_def bind_exn_def subscript_def
      scan_headers_pairs)

text \<open>
  C5 on the message with two \<open>Subject\<close> headers, and on a message with no \<open>Subject\<close>
  header.
\<close>

theorem header_last_occurrence_wins_witness:
  "get_email_content ascii_utf8 (mailbox_bot None) ''m1'' two_subjects =
     (Some \<lparr>subject = ''second'', from_email = ''alice@example.org'', body = ''Hello'',
            thread_id = ''t1'', message_id = ''m1''\<rparr>, two_subjects) \<and>
   get_email_content ascii_utf8 (mailbox_bot None) ''m3'' three_messages =
     (Some \<lparr>subject = [], from_email = ''carol@example.org'', body = ''Hello'',
            thread_id = ''t3'', message_id = ''m3''\<rparr>, three_messages)"
proof -
  let ?p1 = "[(''Subject'', ''first''), (''From'', ''alice@example.org''), (''Subject'', ''second'')]"
  let ?p3 = "[(''From'', ''carol@example.org'')]"
  let ?pl = "\<lambda>ps. \<lparr>pl_headers = Some (map mk_header ps), pl_parts = None,
                   pl_body = Some \<lparr>body_data = Some ''SGVsbG8''\<rparr>\<rparr>"
  have g1: "messages_get (service (mailbox_bot None)) ''m1'' two_subjects
              = (Inr (plain_message ?p1 ''SGVsbG8'' ''t1''), two_subjects)"
    by (simp add: mailbox_get two_subjects_def)
  have g3: "messages_get (service (mailbox_bot None)) ''m3'' three_messages
              = (Inr (plain_message ?p3 ''SGVsbG8'' ''t3''), three_messages)"
    by (simp add: mailbox_get three_messages_def)
  have pl: "msg_payload (plain_message ps ''SGVsbG8'' tid) = Some (?pl ps)" for ps tid
    by (simp add: plain_message_def)
  have hs: "(case pl_headers (?pl ps) of None \<Rightarrow> [] | Some hs \<Rightarrow> hs) = map mk_header ps" for ps
    by simp
  have d: "decode_body ascii_utf8 ''SGVsbG8'' = Inr ''Hello''" by code_simp
  have fb: "find_body ascii_utf8 (?pl ps) = Inr ''Hello''" for ps
    by (simp add: find_body_def d)
  have t: "msg_threadId (plain_message ps ''SGVsbG8'' tid) = Some tid" for ps tid
    by (simp add: plain_message_def)
  have n: "normalize_body ''Hello'' = ''Hello''" by code_simp
  show ?thesis
    using header_last_occurrence_wins [OF g1 pl hs fb t]
      header_last_occurrence_wins [OF g3 pl hs fb t]
    by (simp add: n)
qed

text \<open>
  Claim C6, as the specification has it: a body that fails to decode leaves an empty body
  and the extraction succeeds. The decoding is inside the one \<open>try\<close> of
  \<open>get_email_content\<close>: for the body data \<open>SGVsbG8hx\<close>, nine characters of the
  alphabet, the base64 decoder raises after the \<open>===\<close> is appended, and the extraction
  returns \<open>None\<close>.
\<close>

theorem decode_failure_counterexample:
  "located_data \<lparr>pl_headers = Some [], pl_parts = None,
                  pl_body = Some \<lparr>body_data = Some ''SGVsbG8hx''\<rparr>\<rparr> = Inr (Some ''SGVsbG8hx'') \<and>
   urlsafe_b64decode (''SGVsbG8hx'' @ ''==='') = Inl BinasciiError \<and>
   fst (get_email_content ascii_utf8 (mailbox_bot None) ''m1'' undecodable) = None"
  by code_simp

text \<open>
  Claim C6, amended: for every fetched message whose located body data fails to decode
  from base64, the extraction fails as a whole: \<open>get_email_content\<close> returns \<open>None\<close>
  for the message, whatever its headers are.
\<close>

theorem decode_failure_fails_extraction:
  assumes "messages_get (service self) mid w = (Inr message, w')"
    and "msg_payload message = Some pl"
    and "located_data pl = Inr (Some d)"
    and "urlsafe_b64decode (d @ ''==='') = Inl e"
  shows "get_email_content utf8 self mid w = (None, w')"
  using assms
  by (simp add: get_email_content_fetched extract_content_def bind_exn_def subscript_def
      find_body_located decode_body_def split: sum.splits prod.splits)

text \<open>C6 on the message whose body data is \<open>SGVsbG8hx\<close>.\<close>

theorem decode_failure_fails_extraction_witness:
  "urlsafe_b64decode (''SGVsbG8hx'' @ ''==='') = Inl BinasciiError \<and>
   get_email_content ascii_utf8 (mailbox_bot None) ''m1'' undecodable = (None, undecodable)"
proof -
  let ?ps = "[(''Subject'', ''Hello''), (''From'', ''alice@example.org'')]"
  let ?pl = "\<lparr>pl_headers = Some (map mk_header ?ps), pl_parts = None,
              pl_body = Some \<lparr>body_data = Some ''SGVsbG8hx''\<rparr>\<rparr>"
  have g: "messages_get (service (mailbox_bot None)) ''m1'' undecodable
              = (Inr (plain_message ?ps ''SGVsbG8hx'' ''t1''), undecodable)"
    by (simp add: mailbox_get undecodable_def)
  have pl: "msg_payload (plain_message ?ps ''SGVsbG8hx'' ''t1'') = Some ?pl"
    by (simp add: plain_message_def)
  have l: "located_data ?pl = Inr (Some ''SGVsbG8hx'')"
    by (simp add: located_data_def)
  have e: "urlsafe_b64decode (''SGVsbG8hx'' @ ''==='') = Inl BinasciiError" by code_simp
  from decode_failure_fails_extraction [OF g pl l e] e show ?thesis by simp
qed

section \<open>The poll cycle\<close>

lemma process_message_skipped:
  "get_email_content utf8 self (ref_id m) w = (None, w1) \<Longrightarrow>
     process_message utf8 self m w = ([], w1)"
  by (simp add: process_message_def)

lemma process_message_extracted:
  assumes "get_email_content utf8 self (ref_id m) w = (Some ec, w1)"
    and "generate_reply self ec w1 = (reply, w2)"
    and "send_reply self (thread_id ec) reply (from_email ec) w2 = (sent, w3)"
  shows "process_message utf8 self m w =
     (if sent
      then ([Generated (ref_id m) reply, SendReply (thread_id ec) reply (from_email ec) True,
             MarkAsReplied (ref_id m)], mark_as_replied self (ref_id m) w3)
      else ([Generated (ref_id m) reply, SendReply (thread_id ec) reply (from_email ec) False], w3))"
  using assms by (simp add: process_message_def)

lemma process_batch_append:
  "process_batch utf8 self (xs @ ys) w =
     (case process_batch utf8 self xs w of
        (es, w1) \<Rightarrow> (case process_batch utf8 self ys w1 of (es', w2) \<Rightarrow> (es @ es', w2)))"
  by (induction xs arbitrary: w) (auto split: prod.splits)

lemma process_message_mark_iff:
  "(MarkAsReplied i \<in> set (fst (process_message utf8 self m w))) =
     (i = ref_id m \<and> (\<exists>tid r to. SendReply tid r to True \<in> set (fst (process_message utf8 self m w))))"
  by (auto simp: process_message_def split: prod.splits option.splits bool.splits)

lemma process_message_sends:
  assumes "get_email_content utf8 self (ref_id m) w = (Some ec, w1)"
  shows "\<exists>reply sent. SendReply (thread_id ec) reply (from_email ec) sent
            \<in> set (fst (process_message utf8 self m w))"
proof -
  obtain reply w2 where g: "generate_reply self ec w1 = (reply, w2)"
    by (cases "generate_reply self ec w1")
  obtain sent w3 where s: "send_reply self (thread_id ec) reply (from_email ec) w2 = (sent, w3)"
    by (cases "send_reply self (thread_id ec) reply (from_email ec) w2")
  show ?thesis
    using process_message_extracted [OF assms g s] by (cases sent) auto
qed

text \<open>
  Claim C1: in the processing of a message, \<open>mark_as_replied\<close> is called, and for that
  message only, if and only if \<open>send_reply\<close> returned success. When the content was
  extracted and the reply generated, the call of \<open>send_reply\<close> is in the trace with what
  it returned; if it returned failure, nothing is marked and the world is left as the
  failed send left it, with no call of the provider's modify; if it returned success, the
  message is marked.
\<close>

theorem mark_read_iff_sent:
  "(MarkAsReplied i \<in> set (fst (process_message utf8 self m w))) =
     (i = ref_id m \<and> (\<exists>tid r to. SendReply tid r to True \<in> set (fst (process_message utf8 self m w)))) \<and>
   (get_email_content utf8 self (ref_id m) w = (Some ec, w1) \<and>
    generate_reply self ec w1 = (reply, w2) \<and>
    send_reply self (thread_id ec) reply (from_email ec) w2 = (sent, w3) \<longrightarrow>
      (MarkAsReplied (ref_id m) \<in> set (fst (process_message utf8 self m w))) = sent \<and>
      SendReply (thread_id ec) reply (from_email ec) sent \<in> set (fst (process_message utf8 self m w)) \<and>
      snd (process_message utf8 self m w) = (if sent then mark_as_replied self (ref_id m) w3 else w3))"
proof -
  have "(MarkAsReplied (ref_id m) \<in> set (fst (process_message utf8 self m w))) = sent \<and>
      SendReply (thread_id ec) reply (from_email ec) sent \<in> set (fst (process_message utf8 self m w)) \<and>
      snd (process_message utf8 self m w) = (if sent then mark_as_replied self (ref_id m) w3 else w3)"
    if a: "get_email_content utf8 self (ref_id m) w = (Some ec, w1)"
      and b: "generate_reply self ec w1 = (reply, w2)"
      and c: "send_reply self (thread_id ec) reply (from_email ec) w2 = (sent, w3)"
    using process_message_extracted [OF a b c] by (cases sent) simp_all
  then show ?thesis using process_message_mark_iff [of i utf8 self m w] by blast
qed

text \<open>
  C1 on the mailbox with one unread message: when sending fails the message is not
  marked, the mailbox is unchanged and the message is still unread; when sending works the
  message is marked and no longer unread.
\<close>

theorem mark_read_iff_sent_witness:
  "MarkAsReplied ''m1'' \<notin> set (fst (process_message ascii_utf8 (mailbox_bot None)
       \<lparr>ref_id = ''m1'', ref_threadId = ''t1''\<rparr> (one_message\<lparr>send_works := False\<rparr>))) \<and>
   snd (process_message ascii_utf8 (mailbox_bot None)
       \<lparr>ref_id = ''m1'', ref_threadId = ''t1''\<rparr> (one_message\<lparr>send_works := False\<rparr>))
     = one_message\<lparr>send_works := False\<rparr> \<and>
   ''m1'' \<in> set (unread (one_message\<lparr>send_works := False\<rparr>)) \<and>
   MarkAsReplied ''m1'' \<in> set (fst (process_message ascii_utf8 (mailbox_bot None)
       \<lparr>ref_id = ''m1'', ref_threadId = ''t1''\<rparr> one_message)) \<and>
   unread (snd (process_message ascii_utf8 (mailbox_bot None)
       \<lparr>ref_id = ''m1'', ref_threadId = ''t1''\<rparr> one_message)) = []"
proof -
  let ?m = "\<lparr>ref_id = ''m1'', ref_threadId = ''t1''\<rparr>"
  let ?ec = "\<lparr>subject = ''Meeting tomorrow'', from_email = ''alice@example.org'',
              body = ''Hello'', thread_id = ''t1'', message_id = ''m1''\<rparr>"
  let ?r = "canned_reply Greeting"
  let ?down = "one_message\<lparr>send_works := False\<rparr>"
  let ?sent = "one_message\<lparr>sent_replies :=
      [\<lparr>out_to = ''alice@example.org'', out_subject = ''Re: Auto-reply'',
        out_text = canned_reply Greeting, out_threadId = ''t1''\<rparr>]\<rparr>"
  have e1: "get_email_content ascii_utf8 (mailbox_bot None) (ref_id ?m) ?down = (Some ?ec, ?down)"
    by code_simp
  have g1: "generate_reply (mailbox_bot None) ?ec ?down = (?r, ?down)"
    by code_simp
  have s1: "send_reply (mailbox_bot None) (thread_id ?ec) ?r (from_email ?ec) ?down = (False, ?down)"
    by code_simp
  have e2: "get_email_content ascii_utf8 (mailbox_bot None) (ref_id ?m) one_message
              = (Some ?ec, one_message)"
    by code_simp
  have g2: "generate_reply (mailbox_bot None) ?ec one_message = (?r, one_message)"
    by code_simp
  have s2: "send_reply (mailbox_bot None) (thread_id ?ec) ?r (from_email ?ec) one_message
              = (True, ?sent)"
    by code_simp
  have u: "unread (mark_as_replied (mailbox_bot None) (ref_id ?m) ?sent) = []"
    by code_simp
  have d: "''m1'' \<in> set (unread ?down)" by (simp add: one_message_def)
  note down = mark_read_iff_sent [where ?utf8.0 = ascii_utf8 and self = "mailbox_bot None"
      and m = ?m and w = ?down and ec = ?ec and ?w1.0 = ?down and reply = ?r and ?w2.0 = ?down
      and sent = False and ?w3.0 = ?down and i = "''m1''",
      THEN conjunct2, rule_format, OF conjI [OF e1 conjI [OF g1 s1]]]
  note up = mark_read_iff_sent [where ?utf8.0 = ascii_utf8 and self = "mailbox_bot None"
      and m = ?m and w = one_message and ec = ?ec and ?w1.0 = one_message and reply = ?r
      and ?w2.0 = one_message and sent = True and ?w3.0 = ?sent and i = "''m1''",
      THEN conjunct2, rule_format, OF conjI [OF e2 conjI [OF g2 s2]]]
  from down have d1: "MarkAsReplied ''m1'' \<notin> set (fst (process_message ascii_utf8 (mailbox_bot None) ?m ?down))"
    and d2: "snd (process_message ascii_utf8 (mailbox_bot None) ?m ?down) = ?down"
    by simp_all
  from up have u1: "MarkAsReplied ''m1'' \<in> set (fst (process_message ascii_utf8 (mailbox_bot None) ?m one_message))"
    and u2: "snd (process_message ascii_utf8 (mailbox_bot None) ?m one_message)
               = mark_as_replied (mailbox_bot None) (ref_id ?m) ?sent"
    by simp_all
  show ?thesis
    using d1 d2 d u1 by (simp only: u2 u simp_thms)
qed

text \<open>
  Claim C7: in every batch, a message whose extraction fails is skipped: its processing
  produces no event (no reply generated, no send, no mark), and the batch is processed
  as the messages before it followed by the messages after it. Every message whose
  content is extracted has its reply handed to \<open>send_reply\<close>.
\<close>

theorem batch_skips_failed_extraction:
  assumes "process_batch utf8 self pre w = (es1, w1)"
    and "get_email_content utf8 self (ref_id m) w1 = (None, w2)"
    and "process_batch utf8 self post w2 = (es2, w3)"
  shows "process_message utf8 self m w1 = ([], w2) \<and>
     process_batch utf8 self (pre @ m # post) w = (es1 @ es2, w3) \<and>
     (\<forall>m' wa ec wb. get_email_content utf8 self (ref_id m') wa = (Some ec, wb) \<longrightarrow>
        (\<exists>reply sent. SendReply (thread_id ec) reply (from_email ec) sent
            \<in> set (fst (process_message utf8 self m' wa))))"
proof -
  have skip: "process_message utf8 self m w1 = ([], w2)"
    using assms(2) by (rule process_message_skipped)
  have app: "process_batch utf8 self (pre @ m # post) w = (es1 @ es2, w3)"
    using assms(1,3) skip by (simp add: process_batch_append)
  have sends: "\<forall>m' wa ec wb. get_email_content utf8 self (ref_id m') wa = (Some ec, wb) \<longrightarrow>
        (\<exists>reply sent. SendReply (thread_id ec) reply (from_email ec) sent
            \<in> set (fst (process_message utf8 self m' wa)))"
    by (intro allI impI) (erule process_message_sends)
  from skip app sends show ?thesis by (intro conjI)
qed

text \<open>
  C7 on the batch of three messages of which the second has no payload: the first and
  the third are answered, sent and marked, and the second stays unread.
\<close>

theorem batch_skips_failed_extraction_witness:
  "process_batch ascii_utf8 (mailbox_bot None)
     [\<lparr>ref_id = ''m1'', ref_threadId = ''t1''\<rparr>, \<lparr>ref_id = ''m2'', ref_threadId = ''t2''\<rparr>,
      \<lparr>ref_id = ''m3'', ref_threadId = ''t3''\<rparr>] three_messages
   = ([Generated ''m1'' (canned_reply Greeting),
       SendReply ''t1'' (canned_reply Greeting) ''alice@example.org'' True,
       MarkAsReplied ''m1'',
       Generated ''m3'' (canned_reply Greeting),
       SendReply ''t3'' (canned_reply Greeting) ''carol@example.org'' True,
       MarkAsReplied ''m3''],
      three_messages
        \<lparr>sent_replies :=
           [\<lparr>out_to = ''alice@example.org'', out_subject = ''Re: Auto-reply'',
             out_text = canned_reply Greeting, out_threadId = ''t1''\<rparr>,
            \<lparr>out_to = ''carol@example.org'', out_subject = ''Re: Auto-reply'',
             out_text = canned_reply Greeting, out_threadId = ''t3''\<rparr>],
         unread := [''m2'']\<rparr>)"
proof -
  let ?r1 = "\<lparr>out_to = ''alice@example.org'', out_subject = ''Re: Auto-reply'',
              out_text = canned_reply Greeting, out_threadId = ''t1''\<rparr>"
  let ?r3 = "\<lparr>out_to = ''carol@example.org'', out_subject = ''Re: Auto-reply'',
              out_text = canned_reply Greeting, out_threadId = ''t3''\<rparr>"
  let ?w1 = "three_messages\<lparr>sent_replies := [?r1], unread := [''m2'', ''m3'']\<rparr>"
  have a: "process_batch ascii_utf8 (mailbox_bot None) [\<lparr>ref_id = ''m1'', ref_threadId = ''t1''\<rparr>]
             three_messages
           = ([Generated ''m1'' (canned_reply Greeting),
               SendReply ''t1'' (canned_reply Greeting) ''alice@example.org'' True,
               MarkAsReplied ''m1''], ?w1)"
    by code_simp
  have b: "get_email_content ascii_utf8 (mailbox_bot None)
             (ref_id \<lparr>ref_id = ''m2'', ref_threadId = ''t2''\<rparr>) ?w1 = (None, ?w1)"
    by code_simp
  have c: "process_batch ascii_utf8 (mailbox_bot None) [\<lparr>ref_id = ''m3'', ref_threadId = ''t3''\<rparr>] ?w1
           = ([Generated ''m3'' (canned_reply Greeting),
               SendReply ''t3'' (canned_reply Greeting) ''carol@example.org'' True,
               MarkAsReplied ''m3''],
              three_messages\<lparr>sent_replies := [?r1, ?r3], unread := [''m2'']\<rparr>)"
    by code_simp
  from batch_skips_failed_extraction [OF a b c] show ?thesis by simp
qed

text \<open>
  The listing: an \<open>HttpError\<close> gives the empty list and a cycle that only sleeps; any
  other exception leaves \<open>get_unreplied_emails\<close>, the cycle and \<open>run\<close>.
\<close>

lemma list_http_error_empty:
  "messages_list (service self) w = (Inl HttpError, w') \<Longrightarrow>
     get_unreplied_emails self w = (Inr [], w')"
  by (simp add: get_unreplied_emails_def)

lemma list_http_error_cycle:
  "messages_list (service self) w = (Inl HttpError, w') \<Longrightarrow>
     poll_cycle utf8 self w = (Inr [Sleep (poll_interval self)], w')"
  by (simp add: get_unreplied_emails_def poll_cycle_def)

lemma list_other_error_raises:
  "messages_list (service self) w = (Inl e, w') \<Longrightarrow> e \<noteq> HttpError \<Longrightarrow>
     get_unreplied_emails self w = (Inl e, w')"
  by (simp add: get_unreplied_emails_def)

lemma list_other_error_cycle:
  "messages_list (service self) w = (Inl e, w') \<Longrightarrow> e \<noteq> HttpError \<Longrightarrow>
     poll_cycle utf8 self w = (Inl e, w')"
  by (simp add: get_unreplied_emails_def poll_cycle_def)

lemma list_other_error_run:
  "messages_list (service self) w = (Inl e, w') \<Longrightarrow> e \<noteq> HttpError \<Longrightarrow>
     run utf8 self (Suc n) w = (Inl e, w')"
  by (simp add: list_other_error_cycle)

lemma mailbox_list_raises:
  "messages_list (service (mailbox_bot pipe)) (w\<lparr>list_raises := Some e\<rparr>)
     = (Inl e, w\<lparr>list_raises := Some e\<rparr>)"
  by (simp add: mailbox_bot_def mailbox_service_def)

text \<open>
  Claim C8 says that a failure of the listing is treated as an empty cycle. That holds
  when the listing raises \<open>HttpError\<close>. When it raises any other exception, as a
  connection that cannot be opened does, \<open>get_unreplied_emails\<close> does not return the
  empty list: the exception leaves it, the cycle does not reach the sleep, and \<open>run\<close>
  ends with the exception.
\<close>

theorem list_failure_escapes:
  "get_unreplied_emails (mailbox_bot None) (one_message\<lparr>list_raises := Some HttpError\<rparr>)
     = (Inr [], one_message\<lparr>list_raises := Some HttpError\<rparr>) \<and>
   get_unreplied_emails (mailbox_bot None) (one_message\<lparr>list_raises := Some OtherException\<rparr>)
     = (Inl OtherException, one_message\<lparr>list_raises := Some OtherException\<rparr>) \<and>
   poll_cycle ascii_utf8 (mailbox_bot None) (one_message\<lparr>list_raises := Some OtherException\<rparr>)
     = (Inl OtherException, one_message\<lparr>list_raises := Some OtherException\<rparr>) \<and>
   run ascii_utf8 (mailbox_bot None) (Suc 0) (one_message\<lparr>list_raises := Some OtherException\<rparr>)
     = (Inl OtherException, one_message\<lparr>list_raises := Some OtherException\<rparr>)"
  by (simp add: list_http_error_empty [OF mailbox_list_raises]
      list_other_error_raises [OF mailbox_list_raises]
      list_other_error_cycle [OF mailbox_list_raises]
      list_other_error_run [OF mailbox_list_raises])

end
